theory Spec2Isabelle
  imports Main "HOL-Library.Word"
begin

section \<open>The Validation Authority of va/validation-authority.go\<close>

text \<open>
  A shallow embedding of the Go package \<open>va\<close>: the three challenge validators, the
  dispatcher \<open>validate\<close> and the CAA checker. Everything the package reaches through
  another package (the DNS resolver, the HTTP and TLS clients, the JOSE and JSON
  libraries, \<open>core\<close> and \<open>policy\<close>) is a parameter of the model: a field of the
  records \<open>ValidationAuthorityImpl\<close> and \<open>world\<close>. A Go run-time panic is a value of
  the type \<open>panic\<close>.
\<close>

subsection \<open>Strings (package strings)\<close>

text \<open>
  Go strings are byte sequences, as \<open>string\<close> is here. The separators and cut sets the
  package uses are the single byte ".", so \<open>Split\<close>, \<open>SplitN\<close> and \<open>TrimRight\<close> take
  a character. \<open>Split s sep\<close> never returns the empty list: \<open>Split [] sep = [[]]\<close>, as
  in Go.
\<close>

fun Split :: "string \<Rightarrow> char \<Rightarrow> string list" where
  "Split [] sep = [[]]"
| "Split (c # cs) sep =
     (if c = sep then [] # Split cs sep
      else (case Split cs sep of
              [] \<Rightarrow> [[c]]
            | w # ws \<Rightarrow> (c # w) # ws))"

fun SplitN :: "string \<Rightarrow> char \<Rightarrow> nat \<Rightarrow> string list" where
  "SplitN s sep 0 = []"
| "SplitN s sep (Suc 0) = [s]"
| "SplitN [] sep (Suc (Suc n)) = [[]]"
| "SplitN (c # cs) sep (Suc (Suc n)) =
     (if c = sep then [] # SplitN cs sep (Suc n)
      else (case SplitN cs sep (Suc (Suc n)) of
              [] \<Rightarrow> [[c]]
            | w # ws \<Rightarrow> (c # w) # ws))"

fun Join :: "string list \<Rightarrow> string \<Rightarrow> string" where
  "Join [] sep = []"
| "Join [x] sep = x"
| "Join (x # y # ys) sep = x @ sep @ Join (y # ys) sep"

definition TrimRight :: "string \<Rightarrow> char \<Rightarrow> string" where
  "TrimRight s cutset = rev (dropWhile (\<lambda>c. c = cutset) (rev s))"

text \<open>
  \<open>strings.ToLower\<close> on the bytes of ASCII: the letters A to Z are mapped to a to z and
  every other byte is kept. (Go also maps the upper-case letters beyond ASCII. The general
  theorems below hold for whatever \<open>ToLower\<close> returns; only the scenarios, whose names
  are ASCII, compute it.)
\<close>

definition ToLower :: "string \<Rightarrow> string" where
  "ToLower s =
     map (\<lambda>c. if 65 \<le> (of_char c :: nat) \<and> (of_char c :: nat) \<le> 90
              then char_of ((of_char c :: nat) + 32) else c) s"

subsection \<open>CAA records (miekg/dns) and the filtered set\<close>

record CAA =
  Flag :: "8 word"
  Tag :: string
  Value :: string

record CAASet =
  Issue :: "CAA list"
  Issuewild :: "CAA list"
  Iodef :: "CAA list"
  Unknown :: "CAA list"

text \<open>An error of the DNS resolver: \<open>core.DNSSECError\<close> or any other, with its text.\<close>

datatype dns_error = DNSSECError string | DNSOtherError string

text \<open>
  The fields of \<open>ValidationAuthorityImpl\<close> the validators read. \<open>DNSResolver\<close> is
  \<open>*core.DNSResolver\<close>, whose code is not in the package: its three lookups are the
  fields \<open>LookupHost\<close> (only the error is read), \<open>LookupTXT\<close> and \<open>LookupCAA\<close>.
  The logger and the registration authority are the events of \<open>validate\<close> below.
\<close>

record ValidationAuthorityImpl =
  LookupHost :: "string \<Rightarrow> dns_error option"
  LookupTXT :: "string \<Rightarrow> dns_error + string list"
  LookupCAA :: "string \<Rightarrow> bool \<Rightarrow> dns_error + CAA list"
  IssuerDomain :: string
  TestMode :: bool

subsection \<open>Challenges, identifiers and problems (package core)\<close>

text \<open>
  Modelled from the spec: the package \<open>core\<close> is not among the sources. The problem
  types are the closed set the spec lists, the statuses are \<open>pending\<close>, \<open>valid\<close> and
  \<open>invalid\<close>, and the challenge and identifier type tags are the strings the spec
  gives (\<open>simpleHttp\<close>, \<open>dvsni\<close>, \<open>dns\<close>). The records hold the fields the package
  reads or writes. Fields of two structs that share a name in Go are told apart by a
  prefix (\<open>PD_Type\<close>, \<open>Id_Type\<close>, \<open>Id_Value\<close>, \<open>Ev_ID\<close>, \<open>Ev_Challenge\<close>, \<open>Ev_Error\<close>).
  A nil pointer (\<open>Challenge.Error\<close>, \<open>Challenge.TLS\<close>) is \<open>None\<close>.
\<close>

datatype ProblemType =
    ConnectionProblem | MalformedProblem | ServerInternalProblem | TLSProblem
  | UnauthorizedProblem | UnknownHostProblem | DNSSECProblem

record ProblemDetails =
  PD_Type :: ProblemType
  Detail :: string

datatype AcmeStatus = StatusPending | StatusValid | StatusInvalid

record AcmeIdentifier =
  Id_Type :: string
  Id_Value :: string

type_synonym JsonWebKey = string

record Challenge =
  Type :: string
  Status :: AcmeStatus
  Error :: "ProblemDetails option"
  Token :: string
  Path :: string
  TLS :: "bool option"
  R :: string
  S :: string
  Nonce :: string

record Authorization =
  ID :: string
  RegistrationID :: int
  Identifier :: AcmeIdentifier
  Challenges :: "Challenge list"

definition ChallengeTypeSimpleHTTP :: string where
  "ChallengeTypeSimpleHTTP = ''simpleHttp''"

definition ChallengeTypeDVSNI :: string where
  "ChallengeTypeDVSNI = ''dvsni''"

definition ChallengeTypeDNS :: string where
  "ChallengeTypeDNS = ''dns''"

definition IdentifierDNS :: string where
  "IdentifierDNS = ''dns''"

subsection \<open>Errors and panics\<close>

text \<open>
  The errors \<open>parseHTTPConnError\<close> tells apart: a \<open>*url.Error\<close> wrapping another
  error, a \<open>*net.OpError\<close> with its inner \<open>Err\<close>, or anything else. The inner error of
  an \<open>OpError\<close> is a \<open>*net.DNSError\<close> with its \<open>Timeout()\<close> and \<open>Temporary()\<close>, a value
  whose type prints as \<open>tls.alert\<close>, or anything else.
\<close>

datatype op_inner = DNSError bool bool | TLSAlert | OtherInner

datatype conn_error = URLError conn_error | OpError op_inner | OtherConnError

text \<open>
  A value of Go's \<open>error\<close> as the validators return it beside the challenge: the
  challenge's own \<open>ProblemDetails\<close>, a transport error, or an error known by its text
  (made by \<open>fmt.Errorf\<close> or returned by a library).
\<close>

datatype go_error = ProblemErr ProblemDetails | ConnErr conn_error | GoErr string

datatype panic = NilDereference | IndexOutOfRange

subsection \<open>The libraries and the network\<close>

text \<open>
  \<open>Body\<close> is the result of \<open>ioutil.ReadAll\<close> on the response's body: the read error's
  text or the bytes.
\<close>

record http_Response =
  StatusCode :: int
  Body :: "string + string"

record Signature =
  Header_JsonWebKey :: JsonWebKey
  signature :: string

record JsonWebSignature =
  payload :: string
  Signatures :: "Signature list"

text \<open>
  A value of \<open>interface{}\<close> in a decoded JSON object: a \<open>string\<close>, a \<open>bool\<close>, or a value
  of another dynamic type.
\<close>

datatype json_value = JString string | JBool bool | JOther

record Certificate =
  DNSNames :: "string list"

text \<open>
  What the rest of the world answers. \<open>NewRequest url\<close> is the error of
  \<open>http.NewRequest("GET", url, nil)\<close>; \<open>Do url host\<close> is the pair \<open>client.Do\<close>
  returns for the request to \<open>url\<close> with \<open>Host\<close> header \<open>host\<close>; \<open>Unmarshal\<close> gives
  the entries of the decoded \<open>map[string]interface{}\<close> in the order the \<open>range\<close> loop
  visits them (a Go map has no two entries with one key); \<open>DialWithDialer hostPort
  serverName\<close> is the error of the TLS dial or the peer certificates of the connection;
  \<open>IsSane\<close>, \<open>KeyDigestEquals\<close> and \<open>B64dec\<close> are functions of \<open>core\<close>;
  \<open>ProblemDetails_Error\<close> and \<open>conn_Error\<close> are the \<open>Error()\<close> methods; \<open>Now\<close> is
  \<open>time.Now()\<close>.
\<close>

record world =
  NewRequest :: "string \<Rightarrow> string option"
  Do :: "string \<Rightarrow> string \<Rightarrow> http_Response option \<times> conn_error option"
  ParseSigned :: "string \<Rightarrow> string + JsonWebSignature"
  KeyDigestEquals :: "JsonWebKey \<Rightarrow> JsonWebKey \<Rightarrow> bool"
  Verify :: "JsonWebSignature \<Rightarrow> JsonWebKey \<Rightarrow> string + string"
  Unmarshal :: "string \<Rightarrow> string + (string \<times> json_value) list"
  B64dec :: "string \<Rightarrow> string + string"
  Sum256 :: "string \<Rightarrow> string"
  DialWithDialer :: "string \<Rightarrow> string \<Rightarrow> conn_error + Certificate list"
  IsSane :: "Challenge \<Rightarrow> bool \<Rightarrow> bool"
  ProblemDetails_Error :: "ProblemDetails \<Rightarrow> string"
  conn_Error :: "conn_error \<Rightarrow> string"
  Now :: nat

text \<open>\<open>subtle.ConstantTimeCompare\<close>: 1 when the two byte strings are equal, 0 otherwise.\<close>

definition ConstantTimeCompare :: "string \<Rightarrow> string \<Rightarrow> int" where
  "ConstantTimeCompare x y = (if x = y then 1 else 0)"

text \<open>Formatting: \<open>%d\<close> of an integer, \<open>%064x\<close> of a byte array, \<open>%s\<close> of a bool.\<close>

definition digit :: "nat \<Rightarrow> char" where
  "digit n = ''0123456789abcdef'' ! (n mod 16)"

function decimal :: "nat \<Rightarrow> string" where
  "decimal n = (if n < 10 then [digit n] else decimal (n div 10) @ [digit (n mod 10)])"
  by pat_completeness auto
termination
  by (relation "measure id") auto

declare decimal.simps [simp del]

definition Sprintf_d :: "int \<Rightarrow> string" where
  "Sprintf_d i = (if i < 0 then ''-'' @ decimal (nat (- i)) else decimal (nat i))"

definition hex :: "string \<Rightarrow> string" where
  "hex bs = concat (map (\<lambda>c. [digit (of_char c div 16), digit (of_char c mod 16)]) bs)"

definition Sprintf_064x :: "string \<Rightarrow> string" where
  "Sprintf_064x z = replicate (64 - length (hex z)) CHR ''0'' @ hex z"

definition Sprintf_s_bool :: "bool \<Rightarrow> string" where
  "Sprintf_s_bool b = ''%!s(bool='' @ (if b then ''true'' else ''false'') @ '')''"

subsection \<open>parseHTTPConnError\<close>

definition parseHTTPConnError :: "conn_error \<Rightarrow> ProblemType" where
  "parseHTTPConnError err0 =
     (let err = (case err0 of URLError urlErr \<Rightarrow> urlErr | _ \<Rightarrow> err0) in
      case err of
        OpError netErr \<Rightarrow>
          if (case netErr of DNSError timeout temporary \<Rightarrow> \<not> timeout \<and> \<not> temporary
              | _ \<Rightarrow> False)
          then UnknownHostProblem
          else if netErr = TLSAlert then TLSProblem
          else ConnectionProblem
      | _ \<Rightarrow> ConnectionProblem)"

subsection \<open>validateSimpleHTTP\<close>

text \<open>
  The validators return \<open>(core.Challenge, error)\<close>, or panic. Their text log lines
  (\<open>va.log.Debug\<close>, \<open>va.log.Audit\<close>, \<open>va.log.Notice\<close>) are not part of the model.

  Lines 227 to 251: the four flags and the \<open>range\<close> loop over the decoded payload.
  \<open>None\<close> is the return of the \<open>default\<close> case.
\<close>

record passed =
  typePassed :: bool
  tokenPassed :: bool
  pathPassed :: bool
  tlsPassed :: bool

fun validateSimpleHTTP_range :: "Challenge \<Rightarrow> (string \<times> json_value) list \<Rightarrow> passed
    \<Rightarrow> passed option" where
  "validateSimpleHTTP_range challenge [] p = Some p"
| "validateSimpleHTTP_range challenge ((key, val) # rest) p =
     (if key = ''type'' then
        validateSimpleHTTP_range challenge rest
          (p\<lparr>typePassed :=
               (case val of JString castValue \<Rightarrow> castValue = ChallengeTypeSimpleHTTP
                | _ \<Rightarrow> False)\<rparr>)
      else if key = ''token'' then
        validateSimpleHTTP_range challenge rest
          (p\<lparr>tokenPassed :=
               (case val of JString castValue \<Rightarrow> castValue = Token challenge | _ \<Rightarrow> False)\<rparr>)
      else if key = ''path'' then
        validateSimpleHTTP_range challenge rest
          (p\<lparr>pathPassed :=
               (case val of JString castValue \<Rightarrow> castValue = Path challenge | _ \<Rightarrow> False)\<rparr>)
      else if key = ''tls'' then
        (let tlsValue = (case TLS challenge of None \<Rightarrow> False | Some b \<Rightarrow> b) in
         validateSimpleHTTP_range challenge rest
           (p\<lparr>tlsPassed :=
                (case val of JBool castValue \<Rightarrow> castValue = tlsValue | _ \<Rightarrow> False)\<rparr>))
      else None)"

text \<open>
  Lines 212 to 261: the payload is decoded and compared with the challenge. The test of
  line 252, \<open>!typePassed || !tokenPassed || !pathPassed || !tlsPassed\<close>, is written as
  the negation of the conjunction.
\<close>

definition validateSimpleHTTP_payload :: "world \<Rightarrow> Challenge \<Rightarrow> string
    \<Rightarrow> panic + Challenge \<times> go_error option" where
  "validateSimpleHTTP_payload w challenge payload0 =
     (case Unmarshal w payload0 of
        Inl err \<Rightarrow>
          Inr (challenge\<lparr>Status := StatusInvalid\<rparr>,
               Some (GoErr (''Validation payload failed to parse as JSON: '' @ err)))
      | Inr parsedResponse \<Rightarrow>
          if length parsedResponse \<noteq> 4 then
            Inr (challenge\<lparr>Status := StatusInvalid\<rparr>,
                 Some (GoErr ''Validation payload did not have all fields''))
          else
            (case validateSimpleHTTP_range challenge parsedResponse
                    \<lparr>typePassed = False, tokenPassed = False, pathPassed = False,
                     tlsPassed = False\<rparr> of
               None \<Rightarrow>
                 Inr (challenge\<lparr>Status := StatusInvalid\<rparr>,
                      Some (GoErr ''Validation payload did not have all fields''))
             | Some p \<Rightarrow>
                 if \<not> (typePassed p \<and> tokenPassed p \<and> pathPassed p \<and> tlsPassed p) then
                   Inr (challenge\<lparr>Status := StatusInvalid\<rparr>,
                        Some (GoErr (''Validation contents were not correct: type=''
                          @ Sprintf_s_bool (typePassed p) @ '' token=''
                          @ Sprintf_s_bool (tokenPassed p) @ '' path=''
                          @ Sprintf_s_bool (pathPassed p) @ '' tls=''
                          @ Sprintf_s_bool (tlsPassed p))))
                 else Inr (challenge\<lparr>Status := StatusValid\<rparr>, None)))"

text \<open>
  Lines 162 to 205: the body is read, parsed as a JWS and verified. At line 193 the
  variable \<open>err\<close> is nil (\<open>ParseSigned\<close> returned no error and nothing assigned it
  since), so \<open>err.Error()\<close> is a call on a nil interface: a panic.
\<close>

definition validateSimpleHTTP_body :: "world \<Rightarrow> Challenge \<Rightarrow> JsonWebKey \<Rightarrow> http_Response
    \<Rightarrow> panic + Challenge \<times> go_error option" where
  "validateSimpleHTTP_body w challenge accountKey httpResponse =
     (case Body httpResponse of
        Inl readErr \<Rightarrow> Inr (challenge\<lparr>Status := StatusInvalid\<rparr>, Some (GoErr readErr))
      | Inr body \<Rightarrow>
          (case ParseSigned w body of
             Inl err \<Rightarrow>
               Inr (challenge\<lparr>Status := StatusInvalid\<rparr>,
                    Some (GoErr (''Validation response failed to parse as JWS: '' @ err)))
           | Inr parsedJws \<Rightarrow>
               if length (Signatures parsedJws) > 1 then
                 Inr (challenge\<lparr>Status := StatusInvalid\<rparr>,
                      Some (GoErr ''Too many signatures on validation JWS''))
               else if length (Signatures parsedJws) = 0 then
                 Inr (challenge\<lparr>Status := StatusInvalid\<rparr>,
                      Some (GoErr ''Validation JWS not signed''))
               else
                 (let key = Header_JsonWebKey (Signatures parsedJws ! 0) in
                  if \<not> KeyDigestEquals w key accountKey then Inl NilDereference
                  else
                    (case Verify w parsedJws key of
                       Inl err \<Rightarrow>
                         Inr (challenge\<lparr>Status := StatusInvalid\<rparr>,
                              Some (GoErr (''Validation response failed to verify: '' @ err)))
                     | Inr payload1 \<Rightarrow> validateSimpleHTTP_payload w challenge payload1))))"

text \<open>
  Lines 58 to 160. After a failed \<open>client.Do\<close> (line 143) and after a status code
  other than 200 (line 152) the function sets the status and the error and goes on: there
  is no return. Line 152 reads \<open>httpResponse.StatusCode\<close>, a panic when the response is
  nil.
\<close>

definition validateSimpleHTTP :: "ValidationAuthorityImpl \<Rightarrow> world \<Rightarrow> AcmeIdentifier
    \<Rightarrow> Challenge \<Rightarrow> JsonWebKey \<Rightarrow> panic + Challenge \<times> go_error option" where
  "validateSimpleHTTP va w identifier input accountKey =
     (let challenge = input in
      if length (Path challenge) = 0 then
        (let problem = \<lparr>PD_Type = MalformedProblem,
                        Detail = ''No path provided for SimpleHTTP challenge.''\<rparr>
         in Inr (challenge\<lparr>Status := StatusInvalid, Error := Some problem\<rparr>,
                 Some (ProblemErr problem)))
      else if Id_Type identifier \<noteq> IdentifierDNS then
        (let problem = \<lparr>PD_Type = MalformedProblem,
                        Detail = ''Identifier type for SimpleHTTP was not DNS''\<rparr>
         in Inr (challenge\<lparr>Status := StatusInvalid, Error := Some problem\<rparr>,
                 Some (ProblemErr problem)))
      else
        (let hostName = Id_Value identifier in
         case LookupHost va hostName of
           Some err \<Rightarrow>
             (let problem =
                    (case err of
                       DNSSECError text \<Rightarrow> \<lparr>PD_Type = DNSSECProblem, Detail = text\<rparr>
                     | DNSOtherError text \<Rightarrow>
                         \<lparr>PD_Type = ServerInternalProblem,
                          Detail = ''Unable to communicate with DNS server''\<rparr>)
              in Inr (challenge\<lparr>Error := Some problem, Status := StatusInvalid\<rparr>,
                      Some (ProblemErr problem)))
         | None \<Rightarrow>
             (let scheme = (if (case TLS input of None \<Rightarrow> True | Some b \<Rightarrow> b)
                            then ''https'' else ''http'');
                  hostName = (if TestMode va then ''localhost:5001'' else hostName);
                  scheme = (if TestMode va then ''http'' else scheme);
                  url = scheme @ ''://'' @ hostName @ ''/.well-known/acme-challenge/''
                          @ Path challenge
              in case NewRequest w url of
                   Some err \<Rightarrow>
                     Inr (challenge\<lparr>Error := Some \<lparr>PD_Type = MalformedProblem,
                                     Detail = ''URL provided for SimpleHTTP was invalid''\<rparr>,
                                   Status := StatusInvalid\<rparr>,
                          Some (GoErr err))
                 | None \<Rightarrow>
                     (case Do w url hostName of
                        (httpResponse, err) \<Rightarrow>
                          (let challenge =
                                 (case err of
                                    None \<Rightarrow> challenge
                                  | Some e \<Rightarrow>
                                      challenge\<lparr>Status := StatusInvalid,
                                        Error := Some \<lparr>PD_Type = parseHTTPConnError e,
                                          Detail = ''Could not connect to '' @ url\<rparr>\<rparr>)
                           in case httpResponse of
                                None \<Rightarrow> Inl NilDereference
                              | Some resp \<Rightarrow>
                                  (let challenge =
                                         (if StatusCode resp \<noteq> 200 then
                                            challenge\<lparr>Status := StatusInvalid,
                                              Error := Some \<lparr>PD_Type = UnauthorizedProblem,
                                                Detail = ''Invalid response from '' @ url
                                                  @ '': '' @ Sprintf_d (StatusCode resp)\<rparr>\<rparr>
                                          else challenge)
                                   in validateSimpleHTTP_body w challenge accountKey
                                        resp))))))"

subsection \<open>validateDvsni\<close>

fun validateDvsni_range :: "string list \<Rightarrow> string \<Rightarrow> bool" where
  "validateDvsni_range [] zName = False"
| "validateDvsni_range (name # rest) zName =
     (if ConstantTimeCompare name zName = 1 then True else validateDvsni_range rest zName)"

definition validateDvsni :: "ValidationAuthorityImpl \<Rightarrow> world \<Rightarrow> AcmeIdentifier
    \<Rightarrow> Challenge \<Rightarrow> JsonWebKey \<Rightarrow> panic + Challenge \<times> go_error option" where
  "validateDvsni va w identifier input accountKey =
     (let challenge = input in
      if Id_Type identifier \<noteq> ''dns'' then
        (let problem = \<lparr>PD_Type = MalformedProblem,
                        Detail = ''Identifier type for DVSNI was not DNS''\<rparr>
         in Inr (challenge\<lparr>Error := Some problem, Status := StatusInvalid\<rparr>,
                 Some (ProblemErr problem)))
      else
        (let DVSNIsuffix = ''.acme.invalid'';
             nonceName = Nonce challenge @ DVSNIsuffix
         in case B64dec w (R challenge) of
              Inl err \<Rightarrow>
                Inr (challenge\<lparr>Status := StatusInvalid,
                       Error := Some \<lparr>PD_Type = MalformedProblem,
                         Detail = ''Failed to decode R value from DVSNI challenge''\<rparr>\<rparr>,
                     Some (GoErr err))
            | Inr bytesR \<Rightarrow>
                (case B64dec w (S challenge) of
                   Inl err \<Rightarrow>
                     Inr (challenge\<lparr>Status := StatusInvalid,
                            Error := Some \<lparr>PD_Type = MalformedProblem,
                              Detail = ''Failed to decode S value from DVSNI challenge''\<rparr>\<rparr>,
                          Some (GoErr err))
                 | Inr bytesS \<Rightarrow>
                     (let RS = bytesR @ bytesS;
                          z = Sum256 w RS;
                          zName = Sprintf_064x z @ ''.acme.invalid''
                      in case LookupHost va (Id_Value identifier) of
                           Some err \<Rightarrow>
                             (let problem =
                                    (case err of
                                       DNSSECError text \<Rightarrow>
                                         \<lparr>PD_Type = DNSSECProblem, Detail = text\<rparr>
                                     | DNSOtherError text \<Rightarrow>
                                         \<lparr>PD_Type = ServerInternalProblem,
                                          Detail = ''Unable to communicate with DNS server''\<rparr>)
                              in Inr (challenge\<lparr>Error := Some problem,
                                        Status := StatusInvalid\<rparr>,
                                      Some (ProblemErr problem)))
                         | None \<Rightarrow>
                             (let hostPort = Id_Value identifier @ '':443'';
                                  hostPort = (if TestMode va then ''localhost:5001''
                                              else hostPort)
                              in case DialWithDialer w hostPort nonceName of
                                   Inl err \<Rightarrow>
                                     Inr (challenge\<lparr>Status := StatusInvalid,
                                            Error := Some
                                              \<lparr>PD_Type = parseHTTPConnError err,
                                               Detail =
                                                 ''Failed to connect to host for DVSNI challenge''\<rparr>\<rparr>,
                                          Some (ConnErr err))
                                 | Inr certs \<Rightarrow>
                                     if length certs = 0 then
                                       (let problem =
                                              \<lparr>PD_Type = UnauthorizedProblem,
                                               Detail =
                                                 ''No certs presented for DVSNI challenge''\<rparr>
                                        in Inr (challenge\<lparr>Error := Some problem,
                                                  Status := StatusInvalid\<rparr>,
                                                Some (ProblemErr problem)))
                                     else if validateDvsni_range (DNSNames (certs ! 0)) zName
                                     then Inr (challenge\<lparr>Status := StatusValid\<rparr>, None)
                                     else
                                       (let problem =
                                              \<lparr>PD_Type = UnauthorizedProblem,
                                               Detail =
                                                 ''Correct zName not found for DVSNI challenge''\<rparr>
                                        in Inr (challenge\<lparr>Error := Some problem,
                                                  Status := StatusInvalid\<rparr>,
                                                Some (ProblemErr problem))))))))"

subsection \<open>validateDNS\<close>

fun validateDNS_range :: "string list \<Rightarrow> string \<Rightarrow> bool" where
  "validateDNS_range [] byteToken = False"
| "validateDNS_range (element # rest) byteToken =
     (if ConstantTimeCompare element byteToken = 1 then True
      else validateDNS_range rest byteToken)"

definition validateDNS :: "ValidationAuthorityImpl \<Rightarrow> AcmeIdentifier \<Rightarrow> Challenge
    \<Rightarrow> panic + Challenge \<times> go_error option" where
  "validateDNS va identifier input =
     (let challenge = input in
      if Id_Type identifier \<noteq> IdentifierDNS then
        (let problem = \<lparr>PD_Type = MalformedProblem,
                        Detail = ''Identifier type for DNS was not itself DNS''\<rparr>
         in Inr (challenge\<lparr>Error := Some problem, Status := StatusInvalid\<rparr>,
                 Some (ProblemErr problem)))
      else
        (let DNSPrefix = ''_acme-challenge'';
             challengeSubdomain = DNSPrefix @ ''.'' @ Id_Value identifier
         in case LookupTXT va challengeSubdomain of
              Inl err \<Rightarrow>
                (let problem =
                       (case err of
                          DNSSECError text \<Rightarrow> \<lparr>PD_Type = DNSSECProblem, Detail = text\<rparr>
                        | DNSOtherError text \<Rightarrow>
                            \<lparr>PD_Type = ServerInternalProblem,
                             Detail = ''Unable to communicate with DNS server''\<rparr>)
                 in Inr (challenge\<lparr>Error := Some problem, Status := StatusInvalid\<rparr>,
                         Some (ProblemErr problem)))
            | Inr txts \<Rightarrow>
                (let byteToken = Token challenge in
                 if validateDNS_range txts byteToken
                 then Inr (challenge\<lparr>Status := StatusValid\<rparr>, None)
                 else
                   (let problem = \<lparr>PD_Type = UnauthorizedProblem,
                                   Detail = ''Correct value not found for DNS challenge''\<rparr>
                    in Inr (challenge\<lparr>Error := Some problem, Status := StatusInvalid\<rparr>,
                            Some (ProblemErr problem))))))"

subsection \<open>The dispatcher: validate and UpdateValidations\<close>

record verificationRequestEvent =
  Ev_ID :: string
  Requester :: int
  Ev_Challenge :: Challenge
  RequestTime :: nat
  ResponseTime :: nat
  Ev_Error :: string

text \<open>
  What \<open>validate\<close> itself does to the logger and the registration authority, in order:
  \<open>va.log.AuditObject msg logEvent\<close>, \<open>va.log.Notice\<close> of the formatted authorization,
  \<open>va.RA.OnValidationUpdate authz\<close>.
\<close>

datatype event =
    AuditObject string verificationRequestEvent
  | Notice Authorization
  | OnValidationUpdate Authorization

definition Error_text :: "world \<Rightarrow> go_error \<Rightarrow> string" where
  "Error_text w err =
     (case err of
        GoErr text \<Rightarrow> text
      | ProblemErr problem \<Rightarrow> ProblemDetails_Error w problem
      | ConnErr e \<Rightarrow> conn_Error w e)"

text \<open>
  \<open>validate\<close> indexes \<open>authz.Challenges\<close> at \<open>challengeIndex\<close> (a Go \<open>int\<close>) in its
  first test, line 456; an index out of range is Go's run-time panic. The \<open>switch\<close> of
  line 466 has no \<open>default\<close>: for any other type nothing is assigned and \<open>err\<close> stays
  nil. \<open>logEvent\<close> is built where it is complete; \<open>ResponseTime\<close> is never set and
  stays the zero time.
\<close>

definition validate :: "ValidationAuthorityImpl \<Rightarrow> world \<Rightarrow> Authorization \<Rightarrow> int \<Rightarrow> JsonWebKey
    \<Rightarrow> panic + event list" where
  "validate va w authz challengeIndex accountKey =
     (if challengeIndex < 0 \<or> int (length (Challenges authz)) \<le> challengeIndex
      then Inl IndexOutOfRange
      else
        (let i = nat challengeIndex in
         if \<not> IsSane w (Challenges authz ! i) True then
           (let chall = (Challenges authz ! i)
                  \<lparr>Status := StatusInvalid,
                   Error := Some \<lparr>PD_Type = MalformedProblem,
                                  Detail = ''Challenge failed sanity check.''\<rparr>\<rparr>;
                authz = authz\<lparr>Challenges := (Challenges authz)[i := chall]\<rparr>;
                logEvent = \<lparr>Ev_ID = ID authz, Requester = RegistrationID authz,
                            Ev_Challenge = chall, RequestTime = Now w, ResponseTime = 0,
                            Ev_Error = ''Challenge failed sanity check.''\<rparr>
            in Inr [AuditObject ''Validation result'' logEvent, Notice authz,
                    OnValidationUpdate authz])
         else
           (case
              (if Type (Challenges authz ! i) = ChallengeTypeSimpleHTTP then
                 map_sum id (\<lambda>(c, err). (authz\<lparr>Challenges := (Challenges authz)[i := c]\<rparr>, err))
                   (validateSimpleHTTP va w (Identifier authz) (Challenges authz ! i)
                      accountKey)
               else if Type (Challenges authz ! i) = ChallengeTypeDVSNI then
                 map_sum id (\<lambda>(c, err). (authz\<lparr>Challenges := (Challenges authz)[i := c]\<rparr>, err))
                   (validateDvsni va w (Identifier authz) (Challenges authz ! i) accountKey)
               else if Type (Challenges authz ! i) = ChallengeTypeDNS then
                 map_sum id (\<lambda>(c, err). (authz\<lparr>Challenges := (Challenges authz)[i := c]\<rparr>, err))
                   (validateDNS va (Identifier authz) (Challenges authz ! i))
               else Inr (authz, None))
            of
              Inl p \<Rightarrow> Inl p
            | Inr (authz, err) \<Rightarrow>
                (let logEvent = \<lparr>Ev_ID = ID authz, Requester = RegistrationID authz,
                                 Ev_Challenge = Challenges authz ! i, RequestTime = Now w,
                                 ResponseTime = 0,
                                 Ev_Error = (case err of None \<Rightarrow> []
                                             | Some e \<Rightarrow> Error_text w e)\<rparr>
                 in Inr [AuditObject ''Validation result'' logEvent, Notice authz,
                         OnValidationUpdate authz]))))"

text \<open>
  \<open>UpdateValidations\<close> starts \<open>validate\<close> as a goroutine and returns nil: the pair of
  the returned error and what the started body does.
\<close>

definition UpdateValidations :: "ValidationAuthorityImpl \<Rightarrow> world \<Rightarrow> Authorization \<Rightarrow> int
    \<Rightarrow> JsonWebKey \<Rightarrow> go_error option \<times> (panic + event list)" where
  "UpdateValidations va w authz challengeIndex accountKey =
     (None, validate va w authz challengeIndex accountKey)"

subsection \<open>The CAA checker\<close>

fun criticalUnknown_loop :: "CAA list \<Rightarrow> bool" where
  "criticalUnknown_loop [] = False"
| "criticalUnknown_loop (caaRecord # rest) =
     (if Flag caaRecord > 0 then True else criticalUnknown_loop rest)"

definition criticalUnknown :: "CAASet \<Rightarrow> bool" where
  "criticalUnknown caaSet =
     (if length (Unknown caaSet) > 0 then criticalUnknown_loop (Unknown caaSet) else False)"

fun newCAASet_loop :: "CAA list \<Rightarrow> CAASet \<Rightarrow> CAASet" where
  "newCAASet_loop [] filtered = filtered"
| "newCAASet_loop (caaRecord # rest) filtered =
     newCAASet_loop rest
       (if Tag caaRecord = ''issue'' then filtered\<lparr>Issue := Issue filtered @ [caaRecord]\<rparr>
        else if Tag caaRecord = ''issuewild''
          then filtered\<lparr>Issuewild := Issuewild filtered @ [caaRecord]\<rparr>
        else if Tag caaRecord = ''iodef'' then filtered\<lparr>Iodef := Iodef filtered @ [caaRecord]\<rparr>
        else filtered\<lparr>Unknown := Unknown filtered @ [caaRecord]\<rparr>)"

definition newCAASet :: "CAA list \<Rightarrow> CAASet" where
  "newCAASet CAAs = newCAASet_loop CAAs \<lparr>Issue = [], Issuewild = [], Iodef = [], Unknown = []\<rparr>"

text \<open>
  The inner loop of \<open>getCAASet\<close>, over \<open>[]bool{false, true}\<close>: \<open>None\<close> when the loop
  ends without a return, \<open>Some r\<close> when it returns \<open>r\<close>.
\<close>

fun getCAASet_alias :: "ValidationAuthorityImpl \<Rightarrow> string \<Rightarrow> bool list
    \<Rightarrow> (dns_error + CAASet option) option" where
  "getCAASet_alias va queryDomain [] = None"
| "getCAASet_alias va queryDomain (alias # rest) =
     (case LookupCAA va queryDomain alias of
        Inl err \<Rightarrow> Some (Inl err)
      | Inr CAAs \<Rightarrow>
          if length CAAs > 0 then Some (Inr (Some (newCAASet CAAs)))
          else getCAASet_alias va queryDomain rest)"

text \<open>
  The outer loop, \<open>for i := range splitDomain\<close>, over the indices still to visit.
  \<open>publicSuffixList\<close> is \<open>policy.PublicSuffixList\<close>, a map of another package, read
  only for membership. The result is the pair \<open>(*CAASet, error)\<close>: \<open>Inl err\<close> for
  \<open>(nil, err)\<close>, \<open>Inr None\<close> for \<open>(nil, nil)\<close>.
\<close>

fun getCAASet_loop :: "ValidationAuthorityImpl \<Rightarrow> string set \<Rightarrow> string list \<Rightarrow> nat list
    \<Rightarrow> dns_error + CAASet option" where
  "getCAASet_loop va publicSuffixList splitDomain [] = Inr None"
| "getCAASet_loop va publicSuffixList splitDomain (i # rest) =
     (let queryDomain = Join (drop i splitDomain) ''.'' in
      if queryDomain \<in> publicSuffixList then Inr None
      else (case getCAASet_alias va queryDomain [False, True] of
              Some r \<Rightarrow> r
            | None \<Rightarrow> getCAASet_loop va publicSuffixList splitDomain rest))"

definition getCAASet :: "ValidationAuthorityImpl \<Rightarrow> string set \<Rightarrow> string
    \<Rightarrow> dns_error + CAASet option" where
  "getCAASet va publicSuffixList domain0 =
     (let domain = TrimRight domain0 CHR ''.'';
          splitDomain = Split domain CHR ''.''
      in getCAASet_loop va publicSuffixList splitDomain [0 ..< length splitDomain])"

text \<open>The scan of \<open>checkSet\<close> in \<open>CheckCAARecords\<close>; the result is \<open>valid\<close>.\<close>

fun CheckCAARecords_scan :: "string \<Rightarrow> CAA list \<Rightarrow> bool" where
  "CheckCAARecords_scan issuer [] = False"
| "CheckCAARecords_scan issuer (caa # rest) =
     (if Value caa = issuer then True
      else if Flag caa > 0 then False
      else CheckCAARecords_scan issuer rest)"

text \<open>
  \<open>CheckCAARecords\<close> returns its three named results \<open>(present, valid, err)\<close>, which
  start as \<open>(false, false, nil)\<close>.
\<close>

definition CheckCAARecords :: "ValidationAuthorityImpl \<Rightarrow> string set \<Rightarrow> AcmeIdentifier
    \<Rightarrow> bool \<times> bool \<times> dns_error option" where
  "CheckCAARecords va publicSuffixList identifier =
     (let domain = ToLower (Id_Value identifier) in
      case getCAASet va publicSuffixList domain of
        Inl err \<Rightarrow> (False, False, Some err)
      | Inr None \<Rightarrow> (False, True, None)
      | Inr (Some caaSet) \<Rightarrow>
          if criticalUnknown caaSet then (True, False, None)
          else if length (Issue caaSet) > 0 \<or> length (Issuewild caaSet) > 0 then
            (let checkSet = (if hd (SplitN domain CHR ''.'' 2) = ''*''
                             then Issuewild caaSet else Issue caaSet)
             in (True, CheckCAARecords_scan (IssuerDomain va) checkSet, None))
          else (False, False, None))"

subsection \<open>The CAA walk in the words of the specification\<close>

text \<open>
  The walk of the specification, section 4.F, written from its words and compared with
  \<open>getCAASet\<close> below: the candidates are the suffix sequence of the domain with its
  trailing dots stripped, cut at the first candidate in the public suffix list; each
  candidate is queried plainly and then following a CNAME; the first failed or non-empty
  answer ends the walk, a non-empty one with its records filtered by tag. (Section 4.F
  speaks of a single trailing dot; \<open>strings.TrimRight\<close> strips all of them, and so does
  this walk.)
\<close>

fun suffix_sequence :: "string list \<Rightarrow> string list" where
  "suffix_sequence [] = []"
| "suffix_sequence (l # ls) = Join (l # ls) ''.'' # suffix_sequence ls"

definition spec_candidates :: "string set \<Rightarrow> string \<Rightarrow> string list" where
  "spec_candidates publicSuffixList domain =
     takeWhile (\<lambda>q. q \<notin> publicSuffixList)
       (suffix_sequence (Split (TrimRight domain CHR ''.'') CHR ''.''))"

definition spec_queries :: "string set \<Rightarrow> string \<Rightarrow> (string \<times> bool) list" where
  "spec_queries publicSuffixList domain =
     concat (map (\<lambda>q. [(q, False), (q, True)]) (spec_candidates publicSuffixList domain))"

fun spec_first_answer :: "ValidationAuthorityImpl \<Rightarrow> (string \<times> bool) list
    \<Rightarrow> dns_error + CAASet option" where
  "spec_first_answer va [] = Inr None"
| "spec_first_answer va ((q, alias) # rest) =
     (case LookupCAA va q alias of
        Inl err \<Rightarrow> Inl err
      | Inr [] \<Rightarrow> spec_first_answer va rest
      | Inr (r # rs) \<Rightarrow> Inr (Some (newCAASet (r # rs))))"

definition spec_walk :: "ValidationAuthorityImpl \<Rightarrow> string set \<Rightarrow> string
    \<Rightarrow> dns_error + CAASet option" where
  "spec_walk va publicSuffixList domain =
     spec_first_answer va (spec_queries publicSuffixList domain)"

subsection \<open>Scenarios\<close>

text \<open>
  Scenario S1 of the specification: a SimpleHTTP challenge with path \<open>abc\<close>, token
  \<open>tok\<close> and \<open>tls = true\<close> for \<open>d.example\<close>; the server answers the request to the
  https URL with status 200 and a JWS signed by the account key, whose payload decodes
  to the four expected entries. The other scenarios change one thing each.
\<close>

definition va_S1 :: ValidationAuthorityImpl where
  "va_S1 = \<lparr>LookupHost = (\<lambda>name. None), LookupTXT = (\<lambda>name. Inr []),
            LookupCAA = (\<lambda>name alias. Inr []), IssuerDomain = ''my-ca.example'',
            TestMode = False\<rparr>"

definition world_S1 :: world where
  "world_S1 =
     \<lparr>NewRequest = (\<lambda>url. None),
      Do = (\<lambda>url host.
              if url = ''https://d.example/.well-known/acme-challenge/abc'' \<and> host = ''d.example''
              then (Some \<lparr>StatusCode = 200, Body = Inr ''JWS''\<rparr>, None)
              else (None, Some (OpError OtherInner))),
      ParseSigned = (\<lambda>body.
              if body = ''JWS''
              then Inr \<lparr>payload = ''PAYLOAD'',
                        Signatures = [\<lparr>Header_JsonWebKey = ''account-key'',
                                       signature = ''SIG''\<rparr>]\<rparr>
              else Inl ''not a compact JWS''),
      KeyDigestEquals = (\<lambda>a b. a = b),
      Verify = (\<lambda>jws key. Inr (payload jws)),
      Unmarshal = (\<lambda>p.
              if p = ''PAYLOAD''
              then Inr [(''type'', JString ''simpleHttp''), (''token'', JString ''tok''),
                        (''path'', JString ''abc''), (''tls'', JBool True)]
              else Inl ''invalid character''),
      B64dec = (\<lambda>s. Inr s),
      Sum256 = (\<lambda>bytes. bytes),
      DialWithDialer = (\<lambda>hostPort serverName. Inr []),
      IsSane = (\<lambda>ch completed. True),
      ProblemDetails_Error = Detail,
      conn_Error = (\<lambda>e. ''connection error''),
      Now = 0\<rparr>"

definition identifier_S1 :: AcmeIdentifier where
  "identifier_S1 = \<lparr>Id_Type = ''dns'', Id_Value = ''d.example''\<rparr>"

definition challenge_S1 :: Challenge where
  "challenge_S1 = \<lparr>Type = ''simpleHttp'', Status = StatusPending, Error = None,
                   Token = ''tok'', Path = ''abc'', TLS = Some True, R = [], S = [],
                   Nonce = []\<rparr>"

text \<open>The server answers with a body that is not a JWS.\<close>

definition world_not_JWS :: world where
  "world_not_JWS =
     world_S1\<lparr>Do := (\<lambda>url host. (Some \<lparr>StatusCode = 200, Body = Inr ''hello''\<rparr>, None))\<rparr>"

text \<open>The server answers with status 404 and the body of S1.\<close>

definition world_404 :: world where
  "world_404 =
     world_S1\<lparr>Do := (\<lambda>url host. (Some \<lparr>StatusCode = 404, Body = Inr ''JWS''\<rparr>, None))\<rparr>"

text \<open>The request fails: no response, and an error of an unknown host.\<close>

definition world_no_host :: world where
  "world_no_host =
     world_S1\<lparr>Do := (\<lambda>url host. (None, Some (URLError (OpError (DNSError False False)))))\<rparr>"

text \<open>The challenge of S1 with \<open>tls\<close> absent.\<close>

definition challenge_no_tls :: Challenge where
  "challenge_no_tls = challenge_S1\<lparr>TLS := None\<rparr>"

text \<open>Scenario S3: the JWS is signed by another key.\<close>

definition world_S3 :: world where
  "world_S3 =
     world_S1\<lparr>ParseSigned := (\<lambda>body.
        Inr \<lparr>payload = ''PAYLOAD'',
             Signatures = [\<lparr>Header_JsonWebKey = ''other-key'', signature = ''SIG''\<rparr>]\<rparr>)\<rparr>"

text \<open>Scenario S5: the TXT records of \<open>_acme-challenge.d.example\<close>.\<close>

definition va_S5 :: ValidationAuthorityImpl where
  "va_S5 =
     va_S1\<lparr>LookupTXT := (\<lambda>name.
        if name = ''_acme-challenge.d.example''
        then Inr [''not-the-token'', ''expected-token'']
        else Inl (DNSOtherError ''no such name''))\<rparr>"

definition challenge_S5 :: Challenge where
  "challenge_S5 = \<lparr>Type = ''dns'', Status = StatusPending, Error = None,
                   Token = ''expected-token'', Path = [], TLS = None, R = [], S = [],
                   Nonce = []\<rparr>"

text \<open>\<open>d.example\<close> has one CAA record, with tag \<open>iodef\<close>.\<close>

definition va_iodef :: ValidationAuthorityImpl where
  "va_iodef =
     va_S1\<lparr>LookupCAA := (\<lambda>name alias.
        if name = ''d.example''
        then Inr [\<lparr>Flag = 0, Tag = ''iodef'', Value = ''mailto:security@d.example''\<rparr>]
        else Inr [])\<rparr>"

text \<open>
  Scenario S7: \<open>sub.d.example\<close> has no CAA records and \<open>d.example\<close> has
  \<open>issue "my-ca.example"\<close>.
\<close>

definition va_S7 :: ValidationAuthorityImpl where
  "va_S7 =
     va_S1\<lparr>LookupCAA := (\<lambda>name alias.
        if name = ''d.example''
        then Inr [\<lparr>Flag = 0, Tag = ''issue'', Value = ''my-ca.example''\<rparr>]
        else Inr [])\<rparr>"

definition identifier_S7 :: AcmeIdentifier where
  "identifier_S7 = \<lparr>Id_Type = ''dns'', Id_Value = ''sub.d.example''\<rparr>"

text \<open>An authorization whose only challenge has a type \<open>validate\<close> does not know.\<close>

definition authz_unknown :: Authorization where
  "authz_unknown =
     \<lparr>ID = ''authz-1'', RegistrationID = 7, Identifier = identifier_S1,
      Challenges = [challenge_S1\<lparr>Type := ''proofOfPossession''\<rparr>]\<rparr>"

section \<open>Properties\<close>

lemmas S1_defs = va_S1_def world_S1_def identifier_S1_def challenge_S1_def

lemmas simpleHTTP_defs =
  validateSimpleHTTP_def validateSimpleHTTP_body_def validateSimpleHTTP_payload_def
  IdentifierDNS_def ChallengeTypeSimpleHTTP_def

subsection \<open>validateSimpleHTTP on the scenarios\<close>

text \<open>Scenario S1 ends valid, with no error.\<close>

lemma validateSimpleHTTP_S1:
  "validateSimpleHTTP va_S1 world_S1 identifier_S1 challenge_S1 ''account-key''
     = Inr (challenge_S1\<lparr>Status := StatusValid\<rparr>, None)"
  by (simp add: S1_defs simpleHTTP_defs)

text \<open>
  C1. Claim: whenever a validator fails, the returned challenge has status invalid and a
  non-empty error. What the code does: when the body of the response is not a JWS,
  \<open>validateSimpleHTTP\<close> returns the challenge with status invalid and its error still
  empty (only the companion error is set).
\<close>

theorem validateSimpleHTTP_invalid_without_error:
  "validateSimpleHTTP va_S1 world_not_JWS identifier_S1 challenge_S1 ''account-key''
     = Inr (challenge_S1\<lparr>Status := StatusInvalid\<rparr>,
            Some (GoErr ''Validation response failed to parse as JWS: not a compact JWS''))
   \<and> Status (challenge_S1\<lparr>Status := StatusInvalid\<rparr>) = StatusInvalid
   \<and> Error (challenge_S1\<lparr>Status := StatusInvalid\<rparr>) = None"
  by (simp add: S1_defs world_not_JWS_def simpleHTTP_defs)

text \<open>
  C2. Claim: no validator returns status valid with a non-empty error. What the code
  does: when the server answers 404 with the body of S1, \<open>validateSimpleHTTP\<close> sets the
  error of line 154, goes on, and returns status valid with that error.
\<close>

theorem validateSimpleHTTP_valid_with_error:
  "\<exists>c. validateSimpleHTTP va_S1 world_404 identifier_S1 challenge_S1 ''account-key''
          = Inr (c, None)
      \<and> Status c = StatusValid
      \<and> map_option PD_Type (Error c) = Some UnauthorizedProblem"
  by (simp add: S1_defs world_404_def simpleHTTP_defs)

text \<open>
  C3. Claim: when the GET fails with a transport error, the validator returns at once
  with status invalid and the classifier's error type. What the code does: when
  \<open>client.Do\<close> returns an error and no response, \<open>validateSimpleHTTP\<close> reads the
  status code of the nil response and panics.
\<close>

theorem validateSimpleHTTP_transport_error_panics:
  "validateSimpleHTTP va_S1 world_no_host identifier_S1 challenge_S1 ''account-key''
     = Inl NilDereference"
  by (simp add: S1_defs world_no_host_def simpleHTTP_defs)

text \<open>
  C4. Claim: the payload's \<open>tls\<close> must equal \<open>challenge.tls\<close>, taken as true when
  absent, so that with \<open>challenge.tls\<close> absent a payload with \<open>tls = true\<close> is accepted.
  What the code does: with \<open>tls\<close> absent it fetches the https URL (the server of S1
  answers no other) and then rejects the payload of S1, whose \<open>tls\<close> is true.
\<close>

theorem validateSimpleHTTP_absent_tls_rejects_true:
  "validateSimpleHTTP va_S1 world_S1 identifier_S1 challenge_no_tls ''account-key''
     = Inr (challenge_no_tls\<lparr>Status := StatusInvalid\<rparr>,
            Some (GoErr (''Validation contents were not correct: type=%!s(bool=true)''
              @ '' token=%!s(bool=true) path=%!s(bool=true) tls=%!s(bool=false)'')))"
  by (simp add: S1_defs challenge_no_tls_def simpleHTTP_defs Sprintf_s_bool_def)

text \<open>
  C5. Claim: a JWS signed by a key other than the account key is rejected with status
  invalid and error type unauthorized, without a crash. What the code does: in scenario
  S3 \<open>validateSimpleHTTP\<close> panics at line 193.
\<close>

theorem validateSimpleHTTP_key_mismatch_panics:
  "validateSimpleHTTP va_S1 world_S3 identifier_S1 challenge_S1 ''account-key''
     = Inl NilDereference"
  by (simp add: S1_defs world_S3_def simpleHTTP_defs)

subsection \<open>The payload comparison of validateSimpleHTTP\<close>

text \<open>
  What the \<open>range\<close> loop of lines 231 to 251 computes, for entries with distinct keys
  (the entries of a Go map): it stops at a key other than the four, and otherwise each
  flag tells whether the entry of its key has the expected value, or is left as it was
  when there is no such entry.
\<close>

lemma validateSimpleHTTP_range_char:
  "distinct (map fst m) \<Longrightarrow>
   validateSimpleHTTP_range challenge m p =
     (if fst ` set m \<subseteq> {''type'', ''token'', ''path'', ''tls''} then
        Some \<lparr>typePassed = (if ''type'' \<in> fst ` set m
                             then map_of m ''type'' = Some (JString ChallengeTypeSimpleHTTP)
                             else typePassed p),
              tokenPassed = (if ''token'' \<in> fst ` set m
                             then map_of m ''token'' = Some (JString (Token challenge))
                             else tokenPassed p),
              pathPassed = (if ''path'' \<in> fst ` set m
                             then map_of m ''path'' = Some (JString (Path challenge))
                             else pathPassed p),
              tlsPassed = (if ''tls'' \<in> fst ` set m
                             then map_of m ''tls'' = Some (JBool (case TLS challenge of None \<Rightarrow> False | Some b \<Rightarrow> b))
                             else tlsPassed p)\<rparr>
      else None)"
proof (induction m arbitrary: p)
  case Nil
  then show ?case by simp
next
  case (Cons e m)
  obtain key val where e: "e = (key, val)" by (cases e)
  from Cons.prems have d: "distinct (map fst m)" and k: "key \<notin> fst ` set m"
    by (auto simp: e)
  have js: "\<And>x. (case val of JString s \<Rightarrow> s = x | _ \<Rightarrow> False) = (val = JString x)"
    by (cases val) auto
  have jb: "\<And>x. (case val of JBool b \<Rightarrow> b = x | _ \<Rightarrow> False) = (val = JBool x)"
    by (cases val) auto
  consider (type) "key = ''type''" | (token) "key = ''token''" | (path) "key = ''path''"
    | (tls) "key = ''tls''" | (other) "key \<notin> {''type'', ''token'', ''path'', ''tls''}"
    by blast
  then show ?case
  proof cases
    case type
    with k have "''type'' \<notin> fst ` set m" by simp
    then show ?thesis
      unfolding e type by (simp add: Cons.IH [OF d] js)
  next
    case token
    with k have "''token'' \<notin> fst ` set m" by simp
    then show ?thesis
      unfolding e token by (simp add: Cons.IH [OF d] js)
  next
    case path
    with k have "''path'' \<notin> fst ` set m" by simp
    then show ?thesis
      unfolding e path by (simp add: Cons.IH [OF d] js)
  next
    case tls
    with k have "''tls'' \<notin> fst ` set m" by simp
    then show ?thesis
      unfolding e tls by (simp add: Cons.IH [OF d] jb Let_def)
  next
    case other
    then show ?thesis
      unfolding e by simp
  qed
qed


text \<open>So the order in which the map is visited does not matter.\<close>

lemma validateSimpleHTTP_range_order:
  assumes "distinct (map fst m)" and "distinct (map fst m')" and "set m = set m'"
  shows "validateSimpleHTTP_range challenge m p = validateSimpleHTTP_range challenge m' p"
proof -
  have "map_of m = map_of m'"
    using assms by (simp add: map_of_inject_set)
  then show ?thesis
    using assms by (simp add: validateSimpleHTTP_range_char)
qed

lemma four_keys:
  assumes "distinct (map fst m)" and "length m = 4"
    and "{''type'', ''token'', ''path'', ''tls''} \<subseteq> fst ` set m"
  shows "fst ` set m = {''type'', ''token'', ''path'', ''tls''}"
proof -
  have "card (fst ` set m) = 4"
    using assms(1,2) distinct_card [of "map fst m"] by simp
  moreover have "card {''type'', ''token'', ''path'', ''tls''} = 4"
    by simp
  ultimately show ?thesis
    using assms(3) card_subset_eq [of "fst ` set m" "{''type'', ''token'', ''path'', ''tls''}"]
    by simp
qed

text \<open>
  The payload check ends valid exactly when the decoded object has four entries, and
  these are \<open>type = "simpleHttp"\<close>, \<open>token\<close> and \<open>path\<close> equal to the challenge's and
  \<open>tls\<close> equal to the challenge's \<open>tls\<close>, taken as false when that is absent. In
  every other case it ends invalid, with the challenge's error as it was.
\<close>

lemma validateSimpleHTTP_payload_valid_iff:
  assumes "Unmarshal w payload0 = Inr m" and "distinct (map fst m)"
  shows "validateSimpleHTTP_payload w challenge payload0
           = Inr (challenge\<lparr>Status := StatusValid\<rparr>, None) \<longleftrightarrow>
         length m = 4 \<and>
         map_of m ''type'' = Some (JString ChallengeTypeSimpleHTTP) \<and>
         map_of m ''token'' = Some (JString (Token challenge)) \<and>
         map_of m ''path'' = Some (JString (Path challenge)) \<and>
         map_of m ''tls'' = Some (JBool (case TLS challenge of None \<Rightarrow> False | Some b \<Rightarrow> b))"
proof
  assume v: "validateSimpleHTTP_payload w challenge payload0
           = Inr (challenge\<lparr>Status := StatusValid\<rparr>, None)"
  then have len: "length m = 4"
    using assms(1) by (simp add: validateSimpleHTTP_payload_def split: if_splits)
  from v len obtain p where
    r: "validateSimpleHTTP_range challenge m
          \<lparr>typePassed = False, tokenPassed = False, pathPassed = False, tlsPassed = False\<rparr>
        = Some p"
    and f: "typePassed p \<and> tokenPassed p \<and> pathPassed p \<and> tlsPassed p"
    using assms(1)
    by (simp add: validateSimpleHTTP_payload_def split: option.splits if_splits)
  from r f len show "length m = 4 \<and>
         map_of m ''type'' = Some (JString ChallengeTypeSimpleHTTP) \<and>
         map_of m ''token'' = Some (JString (Token challenge)) \<and>
         map_of m ''path'' = Some (JString (Path challenge)) \<and>
         map_of m ''tls'' = Some (JBool (case TLS challenge of None \<Rightarrow> False | Some b \<Rightarrow> b))"
    by (auto simp: validateSimpleHTTP_range_char [OF assms(2)] split: if_splits)
next
  assume a: "length m = 4 \<and>
         map_of m ''type'' = Some (JString ChallengeTypeSimpleHTTP) \<and>
         map_of m ''token'' = Some (JString (Token challenge)) \<and>
         map_of m ''path'' = Some (JString (Path challenge)) \<and>
         map_of m ''tls'' = Some (JBool (case TLS challenge of None \<Rightarrow> False | Some b \<Rightarrow> b))"
  then have "{''type'', ''token'', ''path'', ''tls''} \<subseteq> fst ` set m"
    by (auto dest!: map_of_SomeD intro: rev_image_eqI)
  with a have keys: "fst ` set m = {''type'', ''token'', ''path'', ''tls''}"
    using four_keys [OF assms(2)] by simp
  have "validateSimpleHTTP_range challenge m
          \<lparr>typePassed = False, tokenPassed = False, pathPassed = False, tlsPassed = False\<rparr>
        = Some \<lparr>typePassed = True, tokenPassed = True, pathPassed = True, tlsPassed = True\<rparr>"
    using a by (simp add: validateSimpleHTTP_range_char [OF assms(2)] keys)
  then show "validateSimpleHTTP_payload w challenge payload0
           = Inr (challenge\<lparr>Status := StatusValid\<rparr>, None)"
    using a assms(1) by (simp add: validateSimpleHTTP_payload_def)
qed

lemma validateSimpleHTTP_payload_status:
  "\<exists>c err. validateSimpleHTTP_payload w challenge payload0 = Inr (c, err) \<and>
     (c = challenge\<lparr>Status := StatusValid\<rparr> \<and> err = None \<or>
      c = challenge\<lparr>Status := StatusInvalid\<rparr> \<and> err \<noteq> None)"
  by (simp add: validateSimpleHTTP_payload_def split: sum.split option.split)

text \<open>
  From line 163 on, \<open>validateSimpleHTTP\<close> writes nothing but the status: it panics, or
  returns the challenge it had with status valid, or with status invalid and a companion
  error. The challenge's error stays what it was.
\<close>

lemma validateSimpleHTTP_body_outcome:
  "validateSimpleHTTP_body w challenge accountKey httpResponse = Inl NilDereference \<or>
   validateSimpleHTTP_body w challenge accountKey httpResponse
     = Inr (challenge\<lparr>Status := StatusValid\<rparr>, None) \<or>
   (\<exists>err. validateSimpleHTTP_body w challenge accountKey httpResponse
     = Inr (challenge\<lparr>Status := StatusInvalid\<rparr>, Some err))"
proof -
  have p: "\<And>payload0. validateSimpleHTTP_payload w challenge payload0
       = Inr (challenge\<lparr>Status := StatusValid\<rparr>, None) \<or>
     (\<exists>err. validateSimpleHTTP_payload w challenge payload0
       = Inr (challenge\<lparr>Status := StatusInvalid\<rparr>, Some err))"
    using validateSimpleHTTP_payload_status [of w challenge] by fastforce
  show ?thesis
    using p by (simp add: validateSimpleHTTP_body_def Let_def split: sum.split)
qed

subsection \<open>parseHTTPConnError\<close>

lemma parseHTTPConnError_range:
  "parseHTTPConnError err \<in> {UnknownHostProblem, TLSProblem, ConnectionProblem}"
  by (simp add: parseHTTPConnError_def Let_def split: conn_error.split op_inner.split)

subsection \<open>validateDvsni\<close>

lemma validateDvsni_range_iff: "validateDvsni_range names zName \<longleftrightarrow> zName \<in> set names"
  by (induction names) (auto simp: ConstantTimeCompare_def)

text \<open>
  \<open>validateDvsni\<close> returns: either the input with status valid and no companion error,
  or a challenge with status invalid, an error and a companion error.
\<close>

lemma validateDvsni_outcome:
  "\<exists>c err. validateDvsni va w identifier input accountKey = Inr (c, err) \<and>
     (c = input\<lparr>Status := StatusValid\<rparr> \<and> err = None \<or>
      Status c = StatusInvalid \<and> Error c \<noteq> None \<and> err \<noteq> None)"
  by (simp add: validateDvsni_def Let_def split: sum.split dns_error.split option.split)

subsection \<open>validateDNS\<close>

lemma validateDNS_range_iff: "validateDNS_range txts byteToken \<longleftrightarrow> byteToken \<in> set txts"
  by (induction txts) (auto simp: ConstantTimeCompare_def)

text \<open>
  \<open>validateDNS\<close> returns: either the input with status valid and no companion error,
  or a challenge with status invalid and an error, which is also the companion error.
\<close>

lemma validateDNS_outcome:
  "\<exists>c err. validateDNS va identifier input = Inr (c, err) \<and>
     (c = input\<lparr>Status := StatusValid\<rparr> \<and> err = None \<or>
      Status c = StatusInvalid \<and>
      (\<exists>problem. Error c = Some problem \<and> err = Some (ProblemErr problem)))"
  by (simp add: validateDNS_def Let_def split: sum.split dns_error.split)

text \<open>
  C8. For an identifier of type DNS, \<open>validateDNS\<close> returns, and its verdict is decided
  by the TXT lookup at \<open>_acme-challenge.\<close> followed by the identifier's value: a DNSSEC
  failure gives status invalid with error type dnssec, any other failure gives status
  invalid with error type serverInternal, and an answer gives status valid exactly when
  one of its strings equals the challenge's token, and status invalid with error type
  unauthorized when none does.
\<close>

theorem validateDNS_verdict:
  assumes "Id_Type identifier = IdentifierDNS"
  shows "\<exists>c err. validateDNS va identifier input = Inr (c, err) \<and>
     (case LookupTXT va (''_acme-challenge.'' @ Id_Value identifier) of
        Inl (DNSSECError text) \<Rightarrow>
          Status c = StatusInvalid \<and> map_option PD_Type (Error c) = Some DNSSECProblem
      | Inl (DNSOtherError text) \<Rightarrow>
          Status c = StatusInvalid \<and> map_option PD_Type (Error c) = Some ServerInternalProblem
      | Inr txts \<Rightarrow>
          (Status c = StatusValid \<longleftrightarrow> Token input \<in> set txts) \<and>
          (Token input \<notin> set txts \<longrightarrow>
             Status c = StatusInvalid \<and>
             map_option PD_Type (Error c) = Some UnauthorizedProblem))"
  using assms
  by (auto simp: validateDNS_def validateDNS_range_iff Let_def split: sum.split dns_error.split)

theorem validateDNS_verdict_witness:
  "Id_Type identifier_S1 = IdentifierDNS \<and>
   LookupTXT va_S5 (''_acme-challenge.'' @ Id_Value identifier_S1)
     = Inr [''not-the-token'', ''expected-token''] \<and>
   (\<exists>c err. validateDNS va_S5 identifier_S1 challenge_S5 = Inr (c, err) \<and>
      Status c = StatusValid)"
proof -
  have h: "Id_Type identifier_S1 = IdentifierDNS"
    by (simp add: identifier_S1_def IdentifierDNS_def)
  have q: "LookupTXT va_S5 (''_acme-challenge.'' @ Id_Value identifier_S1)
     = Inr [''not-the-token'', ''expected-token'']"
    by (simp add: va_S5_def va_S1_def identifier_S1_def)
  from validateDNS_verdict [OF h, of va_S5 challenge_S5] q
  have "\<exists>c err. validateDNS va_S5 identifier_S1 challenge_S5 = Inr (c, err) \<and>
      Status c = StatusValid"
    by (auto simp: challenge_S5_def)
  with h q show ?thesis by blast
qed

subsection \<open>The dispatcher\<close>

text \<open>
  C9. When the index is in range, the indexed challenge passes the sanity check and its
  type is none of the three the dispatcher knows, \<open>validate\<close> does exactly three things,
  in this order: one audit event, carrying the indexed challenge as it was and no error
  text; one notice; one call of the registration authority, with the authorization it
  was given, so with every challenge unchanged.
\<close>

theorem validate_unrecognized_type:
  assumes "0 \<le> challengeIndex" and "challengeIndex < int (length (Challenges authz))"
    and "IsSane w (Challenges authz ! nat challengeIndex) True"
    and "Type (Challenges authz ! nat challengeIndex)
           \<notin> {ChallengeTypeSimpleHTTP, ChallengeTypeDVSNI, ChallengeTypeDNS}"
  shows "validate va w authz challengeIndex accountKey =
     Inr [AuditObject ''Validation result''
            \<lparr>Ev_ID = ID authz, Requester = RegistrationID authz,
             Ev_Challenge = Challenges authz ! nat challengeIndex,
             RequestTime = Now w, ResponseTime = 0, Ev_Error = []\<rparr>,
          Notice authz, OnValidationUpdate authz]"
  using assms by (simp add: validate_def)

theorem validate_unrecognized_type_witness:
  "validate va_S1 world_S1 authz_unknown 0 ''account-key'' =
     Inr [AuditObject ''Validation result''
            \<lparr>Ev_ID = ''authz-1'', Requester = 7,
             Ev_Challenge = challenge_S1\<lparr>Type := ''proofOfPossession''\<rparr>,
             RequestTime = 0, ResponseTime = 0, Ev_Error = []\<rparr>,
          Notice authz_unknown, OnValidationUpdate authz_unknown]"
  using validate_unrecognized_type [of 0 authz_unknown world_S1 va_S1 "''account-key''"]
  by (simp add: authz_unknown_def world_S1_def ChallengeTypeSimpleHTTP_def
      ChallengeTypeDVSNI_def ChallengeTypeDNS_def)

text \<open>
  C10. \<open>validate\<close> indexes the challenges without a check of its own: for an index
  below 0 or not below the number of challenges the body started by
  \<open>UpdateValidations\<close> panics (it reports no verdict and does nothing else), while
  \<open>UpdateValidations\<close> itself has returned nil; and whenever \<open>validate\<close> runs to its
  end the index was in range.
\<close>

theorem validate_index_out_of_range:
  "(challengeIndex < 0 \<or> int (length (Challenges authz)) \<le> challengeIndex \<longrightarrow>
      validate va w authz challengeIndex accountKey = Inl IndexOutOfRange \<and>
      UpdateValidations va w authz challengeIndex accountKey = (None, Inl IndexOutOfRange)) \<and>
   (\<forall>events. validate va w authz challengeIndex accountKey = Inr events \<longrightarrow>
      0 \<le> challengeIndex \<and> challengeIndex < int (length (Challenges authz)))"
  by (auto simp: validate_def UpdateValidations_def)

theorem validate_index_out_of_range_witness:
  "int (length (Challenges authz_unknown)) \<le> 1 \<and>
   validate va_S1 world_S1 authz_unknown 1 ''account-key'' = Inl IndexOutOfRange \<and>
   UpdateValidations va_S1 world_S1 authz_unknown 1 ''account-key''
     = (None, Inl IndexOutOfRange) \<and>
   (\<exists>events. validate va_S1 world_S1 authz_unknown 0 ''account-key'' = Inr events) \<and>
   (0::int) < int (length (Challenges authz_unknown))"
proof -
  have h: "int (length (Challenges authz_unknown)) \<le> 1"
    by (simp add: authz_unknown_def)
  have r: "\<exists>events. validate va_S1 world_S1 authz_unknown 0 ''account-key'' = Inr events"
    by (simp add: validate_def authz_unknown_def world_S1_def ChallengeTypeSimpleHTTP_def
        ChallengeTypeDVSNI_def ChallengeTypeDNS_def)
  from validate_index_out_of_range [of 1 authz_unknown va_S1 world_S1 "''account-key''"] h
  have p: "validate va_S1 world_S1 authz_unknown 1 ''account-key'' = Inl IndexOutOfRange \<and>
      UpdateValidations va_S1 world_S1 authz_unknown 1 ''account-key''
        = (None, Inl IndexOutOfRange)"
    by simp
  from validate_index_out_of_range [of 0 authz_unknown va_S1 world_S1 "''account-key''"] r
  have "(0::int) < int (length (Challenges authz_unknown))"
    by auto
  with h r p show ?thesis by simp
qed

subsection \<open>The CAA checker\<close>

text \<open>\<open>SplitN domain "." 2\<close> has a first element, the one \<open>CheckCAARecords\<close> reads.\<close>

lemma SplitN_2_nonempty: "SplitN s sep 2 \<noteq> []"
  by (induction s) (auto simp: numeral_2_eq_2 split: list.splits)

text \<open>
  C6. Claim: a non-empty record set without issue, issuewild and critical unknown
  records gives \<open>(present, valid) = (true, true)\<close>. What the code does: when the only
  record of \<open>d.example\<close> has the tag iodef, none of the branches of \<open>CheckCAARecords\<close>
  is taken and the results keep their zero values.
\<close>

theorem CheckCAARecords_iodef_only:
  "CheckCAARecords va_iodef {''example''} identifier_S1 = (False, False, None)"
  by (simp add: va_iodef_def va_S1_def identifier_S1_def CheckCAARecords_def getCAASet_def
      TrimRight_def ToLower_def newCAASet_def criticalUnknown_def upt_rec)

lemma alias_step:
  "spec_first_answer va ((q, False) # (q, True) # rest) =
     (case getCAASet_alias va q [False, True] of
        Some r \<Rightarrow> r
      | None \<Rightarrow> spec_first_answer va rest)"
  by (simp split: sum.split list.split)

lemma getCAASet_loop_walk:
  "getCAASet_loop va psl splitDomain indices =
     spec_first_answer va
       (concat (map (\<lambda>q. [(q, False), (q, True)])
          (takeWhile (\<lambda>q. q \<notin> psl)
             (map (\<lambda>i. Join (drop i splitDomain) ''.'') indices))))"
proof (induction indices)
  case Nil
  then show ?case by simp
next
  case (Cons i rest)
  let ?q = "Join (drop i splitDomain) ''.''"
  let ?tail = "concat (map (\<lambda>q. [(q, False), (q, True)])
      (takeWhile (\<lambda>q. q \<notin> psl) (map (\<lambda>i. Join (drop i splitDomain) ''.'') rest)))"
  show ?case
  proof (cases "?q \<in> psl")
    case True
    then show ?thesis by simp
  next
    case False
    then have "getCAASet_loop va psl splitDomain (i # rest) =
        (case getCAASet_alias va ?q [False, True] of
           Some r \<Rightarrow> r
         | None \<Rightarrow> getCAASet_loop va psl splitDomain rest)"
      by (simp add: Let_def del: getCAASet_alias.simps)
    also have "\<dots> =
        (case getCAASet_alias va ?q [False, True] of
           Some r \<Rightarrow> r
         | None \<Rightarrow> spec_first_answer va ?tail)"
      by (simp only: Cons.IH)
    also have "\<dots> =
        spec_first_answer va ((?q, False) # (?q, True) # ?tail)"
      by (rule alias_step [symmetric])
    finally show ?thesis
      using False by (simp del: spec_first_answer.simps(2))
  qed
qed

lemma suffix_sequence_indices:
  "map (\<lambda>i. Join (drop i ls) ''.'') [0 ..< length ls] = suffix_sequence ls"
proof (induction ls)
  case Nil
  then show ?case by simp
next
  case (Cons l ls)
  have "[0 ..< length (l # ls)] = 0 # map Suc [0 ..< length ls]"
    by (simp add: upt_conv_Cons map_Suc_upt del: upt_Suc)
  then show ?case
    using Cons.IH by (simp add: comp_def del: upt_Suc Join.simps)
qed

lemma getCAASet_is_spec_walk:
  "getCAASet va psl domain = spec_walk va psl domain"
  by (simp add: getCAASet_def spec_walk_def spec_queries_def spec_candidates_def Let_def
      getCAASet_loop_walk suffix_sequence_indices)

lemma spec_first_answer_empty:
  "\<forall>(q, alias) \<in> set qs. LookupCAA va q alias = Inr [] \<Longrightarrow> spec_first_answer va qs = Inr None"
  by (induction qs) auto

lemma Split_nonempty: "Split s sep \<noteq> []"
  by (induction s) (auto split: list.split)

lemma Join_Cons_Cons: "Join ((x # w) # ws) sep = x # Join (w # ws) sep"
  by (cases ws) simp_all

lemma Join_Split: "Join (Split s c) [c] = s"
proof (induction s)
  case Nil
  then show ?case by simp
next
  case (Cons x xs)
  obtain w ws where sp: "Split xs c = w # ws"
    using Split_nonempty [of xs c] by (cases "Split xs c") auto
  show ?case
    using Cons.IH by (simp add: sp Join_Cons_Cons)
qed

lemma Split_label: "sep \<notin> set label \<Longrightarrow> Split (label @ sep # rest) sep = label # Split rest sep"
  by (induction label) auto

lemma TrimRight_id: "s \<noteq> [] \<Longrightarrow> last s \<noteq> c \<Longrightarrow> TrimRight (pre @ s) c = pre @ s"
  by (cases s rule: rev_cases) (simp_all add: TrimRight_def)

lemma spec_queries_label:
  assumes "CHR ''.'' \<notin> set label" and "parent \<noteq> []" and "last parent \<noteq> CHR ''.''"
    and "label @ CHR ''.'' # parent \<notin> psl"
  shows "spec_queries psl (label @ CHR ''.'' # parent) =
     (label @ CHR ''.'' # parent, False) # (label @ CHR ''.'' # parent, True)
       # spec_queries psl parent"
proof -
  obtain w ws where sp: "Split parent CHR ''.'' = w # ws"
    using Split_nonempty [of parent "CHR ''.''"] by (cases "Split parent CHR ''.''") auto
  have j: "Join (label # w # ws) ''.'' = label @ CHR ''.'' # parent"
    using Join_Split [of parent "CHR ''.''"] by (simp add: sp)
  have t1: "TrimRight (label @ CHR ''.'' # parent) CHR ''.'' = label @ CHR ''.'' # parent"
    using TrimRight_id [OF assms(2,3), of "label @ ''.''"] by simp
  have t2: "TrimRight parent CHR ''.'' = parent"
    using TrimRight_id [OF assms(2,3), of "[]"] by simp
  have s: "Split (label @ CHR ''.'' # parent) CHR ''.'' = label # w # ws"
    using Split_label [OF assms(1), of parent] by (simp add: sp)
  show ?thesis
    unfolding spec_queries_def spec_candidates_def t1 t2 s sp
    using assms(4) j by (simp del: Join.simps add: Join.simps(3) [of label w ws, symmetric])
qed

lemma SplitN_label:
  "sep \<notin> set label \<Longrightarrow> SplitN (label @ sep # rest) sep 2 = [label, rest]"
  by (induction label) (auto simp: numeral_2_eq_2)

lemma CheckCAARecords_same_set:
  assumes "getCAASet va psl (ToLower (Id_Value child)) = getCAASet va psl (ToLower (Id_Value par))"
    and "hd (SplitN (ToLower (Id_Value child)) CHR ''.'' 2) \<noteq> ''*''"
    and "hd (SplitN (ToLower (Id_Value par)) CHR ''.'' 2) \<noteq> ''*''"
  shows "CheckCAARecords va psl child = CheckCAARecords va psl par"
  using assms by (simp add: CheckCAARecords_def Let_def split: sum.split option.split)

text \<open>
  C7. \<open>getCAASet\<close> is the walk of the specification: over the suffix sequence of the
  domain without its trailing dots, stopping with no records at a candidate of the
  public suffix list, asking each candidate plainly and then through a CNAME, and
  ending at the first non-empty answer. When every query of the walk is answered with
  no records, \<open>CheckCAARecords\<close> returns \<open>(present, valid) = (false, true)\<close>. And a name
  \<open>label.parent\<close> that is no public suffix and has no CAA records gets the record set of
  \<open>parent\<close>, and with it the decision of \<open>parent\<close> when neither name starts with the
  wildcard label.
\<close>

theorem getCAASet_walk:
  "getCAASet va psl domain = spec_walk va psl domain \<and>
   ((\<forall>(q, alias) \<in> set (spec_queries psl (ToLower (Id_Value identifier))).
        LookupCAA va q alias = Inr [])
      \<longrightarrow> CheckCAARecords va psl identifier = (False, True, None)) \<and>
   (CHR ''.'' \<notin> set label \<and> parent \<noteq> [] \<and> last parent \<noteq> CHR ''.'' \<and>
    label @ ''.'' @ parent \<notin> psl \<and>
    LookupCAA va (label @ ''.'' @ parent) False = Inr [] \<and>
    LookupCAA va (label @ ''.'' @ parent) True = Inr []
      \<longrightarrow> getCAASet va psl (label @ ''.'' @ parent) = getCAASet va psl parent \<and>
          (label \<noteq> ''*'' \<and> hd (SplitN parent CHR ''.'' 2) \<noteq> ''*'' \<and>
           ToLower (Id_Value child) = label @ ''.'' @ parent \<and>
           ToLower (Id_Value par) = parent
             \<longrightarrow> CheckCAARecords va psl child = CheckCAARecords va psl par))"
proof (intro conjI impI)
  show "getCAASet va psl domain = spec_walk va psl domain"
    by (rule getCAASet_is_spec_walk)
next
  assume "\<forall>(q, alias) \<in> set (spec_queries psl (ToLower (Id_Value identifier))).
        LookupCAA va q alias = Inr []"
  then have "spec_walk va psl (ToLower (Id_Value identifier)) = Inr None"
    by (simp add: spec_walk_def spec_first_answer_empty)
  then show "CheckCAARecords va psl identifier = (False, True, None)"
    by (simp add: CheckCAARecords_def getCAASet_is_spec_walk)
next
  assume h: "CHR ''.'' \<notin> set label \<and> parent \<noteq> [] \<and> last parent \<noteq> CHR ''.'' \<and>
    label @ ''.'' @ parent \<notin> psl \<and>
    LookupCAA va (label @ ''.'' @ parent) False = Inr [] \<and>
    LookupCAA va (label @ ''.'' @ parent) True = Inr []"
  then have "spec_queries psl (label @ ''.'' @ parent) =
     (label @ ''.'' @ parent, False) # (label @ ''.'' @ parent, True) # spec_queries psl parent"
    using spec_queries_label [of label parent psl] by simp
  with h show same: "getCAASet va psl (label @ ''.'' @ parent) = getCAASet va psl parent"
    by (simp add: getCAASet_is_spec_walk spec_walk_def)
  assume n: "label \<noteq> ''*'' \<and> hd (SplitN parent CHR ''.'' 2) \<noteq> ''*'' \<and>
           ToLower (Id_Value child) = label @ ''.'' @ parent \<and>
           ToLower (Id_Value par) = parent"
  from h have "hd (SplitN (label @ ''.'' @ parent) CHR ''.'' 2) = label"
    using SplitN_label [of "CHR ''.''" label parent] by simp
  with n same show "CheckCAARecords va psl child = CheckCAARecords va psl par"
    by (intro CheckCAARecords_same_set) simp_all
qed

theorem getCAASet_walk_witness:
  "spec_queries {''example''} ''sub.d.example'' =
     [(''sub.d.example'', False), (''sub.d.example'', True),
      (''d.example'', False), (''d.example'', True)] \<and>
   getCAASet va_S7 {''example''} ''sub.d.example'' = getCAASet va_S7 {''example''} ''d.example'' \<and>
   getCAASet va_S7 {''example''} ''d.example''
     = Inr (Some (newCAASet [\<lparr>Flag = 0, Tag = ''issue'', Value = ''my-ca.example''\<rparr>])) \<and>
   CheckCAARecords va_S7 {''example''} identifier_S7
     = CheckCAARecords va_S7 {''example''} identifier_S1 \<and>
   CheckCAARecords va_S7 {''example''} identifier_S7 = (True, True, None) \<and>
   CheckCAARecords va_S1 {''example''} identifier_S7 = (False, True, None)"
proof -
  have q: "spec_queries {''example''} ''sub.d.example'' =
     [(''sub.d.example'', False), (''sub.d.example'', True),
      (''d.example'', False), (''d.example'', True)]"
    by (simp add: spec_queries_def spec_candidates_def TrimRight_def)
  have l: "ToLower (Id_Value identifier_S7) = ''sub.d.example''"
    by (simp add: identifier_S7_def ToLower_def)
  have l1: "ToLower (Id_Value identifier_S1) = ''d.example''"
    by (simp add: identifier_S1_def ToLower_def)
  have first: "hd (SplitN ''d.example'' CHR ''.'' 2) = ''d''"
    by (simp add: numeral_2_eq_2)
  note w7 = getCAASet_walk [of va_S7 "{''example''}" "''d.example''" identifier_S7 "''sub''"
      "''d.example''" identifier_S7 identifier_S1]
  have inherit: "getCAASet va_S7 {''example''} ''sub.d.example''
      = getCAASet va_S7 {''example''} ''d.example''"
    using w7 by (simp add: va_S7_def va_S1_def)
  have parent: "getCAASet va_S7 {''example''} ''d.example''
     = Inr (Some (newCAASet [\<lparr>Flag = 0, Tag = ''issue'', Value = ''my-ca.example''\<rparr>]))"
    using w7
    by (simp add: spec_walk_def spec_queries_def spec_candidates_def TrimRight_def va_S7_def
        va_S1_def)
  have same: "CheckCAARecords va_S7 {''example''} identifier_S7
     = CheckCAARecords va_S7 {''example''} identifier_S1"
    using w7 by (simp add: l l1 first va_S7_def va_S1_def)
  have IssuerDomain_S7: "IssuerDomain va_S7 = ''my-ca.example''"
    by (simp add: va_S7_def va_S1_def)
  have "CheckCAARecords va_S7 {''example''} identifier_S1 = (True, True, None)"
    by (simp add: CheckCAARecords_def l1 parent newCAASet_def criticalUnknown_def
        Let_def first IssuerDomain_S7)
  with same have s7: "CheckCAARecords va_S7 {''example''} identifier_S7 = (True, True, None)"
    by simp
  have none: "CheckCAARecords va_S1 {''example''} identifier_S7 = (False, True, None)"
    using getCAASet_walk [of va_S1 "{''example''}" "''d.example''" identifier_S7 "''sub''"
        "''d.example''" identifier_S7 identifier_S1]
    by (simp add: l q va_S1_def)
  from q inherit parent same s7 none show ?thesis by simp
qed

end
